theory Spec2Isabelle
  imports Complex_Main "HOL-Library.Log_Nat" "HOL-Library.Monad_Syntax" "HOL-Library.Sublist"
begin

section \<open>Python floats\<close>

text \<open>
  The monitors compute with Python \<open>float\<close>s, that is IEEE-754 binary64 numbers.
  A finite double is a rational number, so readings and thresholds are values of type
  \<open>rat\<close>, comparisons are the exact comparisons of \<open>rat\<close>, and every arithmetic
  operation rounds its exact result to 53 significant bits, ties to even
  (\<open>round_double\<close>). The exponent is left unbounded: NaN, the infinities, overflow and
  gradual underflow are outside the model. For \<open>calculate_battery_percent\<close> this loses
  nothing on finite voltages and cell counts below \<open>2 ^ 1000\<close> in magnitude: the
  difference of two doubles is exact wherever a double would be subnormal, and a
  product that would overflow to \<open>inf\<close> is clamped to 100 (to 0 for \<open>-inf\<close>) either way.
\<close>

definition round_half_even :: "rat \<Rightarrow> int" where
  "round_half_even x =
     (let f = \<lfloor>x\<rfloor>; d = x - of_int f in
      if d < 1 / 2 then f
      else if 1 / 2 < d then f + 1
      else if even f then f else f + 1)"

text \<open>\<open>ilog2 x\<close> is the binary exponent of a positive \<open>x\<close>: \<open>2 powi ilog2 x \<le> x < 2 powi (ilog2 x + 1)\<close>.\<close>

definition ilog2 :: "rat \<Rightarrow> int" where
  "ilog2 x =
     (let (p, q) = quotient_of x;
          k = bitlen p - bitlen q
      in if 2 powi k \<le> x then k else k - 1)"

definition round_double :: "rat \<Rightarrow> rat" where
  "round_double x =
     (if x = 0 then 0
      else let e = ilog2 \<bar>x\<bar> - 52;
               m = round_half_even (\<bar>x\<bar> / 2 powi e)
           in sgn x * of_int m * 2 powi e)"

definition fadd :: "rat \<Rightarrow> rat \<Rightarrow> rat" where
  "fadd x y = round_double (x + y)"

definition fsub :: "rat \<Rightarrow> rat \<Rightarrow> rat" where
  "fsub x y = round_double (x - y)"

definition fmul :: "rat \<Rightarrow> rat \<Rightarrow> rat" where
  "fmul x y = round_double (x * y)"

text \<open>Float division; the caller checks the divisor, since Python raises on zero.\<close>

definition fdiv :: "rat \<Rightarrow> rat \<Rightarrow> rat" where
  "fdiv x y = round_double (x / y)"

text \<open>The conversion of an \<open>int\<close> operand in mixed arithmetic such as \<open>4.2 * cell_count\<close>.\<close>

definition float_of_int :: "int \<Rightarrow> rat" where
  "float_of_int i = round_double (of_int i)"

datatype py_exception = ZeroDivisionError | IndexError | ValueError | TypeError
  | AttributeError | OverflowError | YAMLError

section \<open>Battery percentage (ina219\_safety.py, ups\_benchmark.py)\<close>

text \<open>The decimal literals \<open>4.2\<close> and \<open>3.0\<close> denote the nearest doubles.\<close>

definition CELL_VOLTAGE_FULL :: rat where
  "CELL_VOLTAGE_FULL = round_double (42 / 10)"

definition CELL_VOLTAGE_EMPTY :: rat where
  "CELL_VOLTAGE_EMPTY = round_double 3"



text \<open>The three locals of \<open>calculate_battery_percent\<close>.\<close>

definition voltage_full :: "int \<Rightarrow> rat" where
  "voltage_full cell_count = fmul CELL_VOLTAGE_FULL (float_of_int cell_count)"

definition voltage_empty :: "int \<Rightarrow> rat" where
  "voltage_empty cell_count = fmul CELL_VOLTAGE_EMPTY (float_of_int cell_count)"

definition voltage_range :: "int \<Rightarrow> rat" where
  "voltage_range cell_count = fsub (voltage_full cell_count) (voltage_empty cell_count)"

text \<open>
  \<open>percent = ((voltage - voltage_empty) / voltage_range) * 100\<close>, then
  \<open>max(0.0, min(100.0, percent))\<close>. The division raises \<open>ZeroDivisionError\<close> when
  \<open>voltage_range\<close> is zero (a cell count of 0). The function is the same, line for
  line, in both files (ina219\_safety.py lines 62-74, ups\_benchmark.py lines 39-50).
\<close>

definition calculate_battery_percent :: "rat \<Rightarrow> int \<Rightarrow> py_exception + rat" where
  "calculate_battery_percent voltage cell_count =
     (if voltage_range cell_count = 0 then Inl ZeroDivisionError
      else let percent =
                 fmul (fdiv (fsub voltage (voltage_empty cell_count)) (voltage_range cell_count)) 100
           in Inr (max 0 (min 100 percent)))"

section \<open>The monitoring loops\<close>

text \<open>
  What one pass of a monitor's \<open>while True\<close> loop does beyond logging the reading:
  nothing, the warning log line, the recovery log line, \<open>trigger_shutdown\<close>, the
  read-error log line, or the read-error line followed by the critical line.
\<close>

datatype action = NoAction | WarnRaised | WarnCleared | Shutdown | ReadFailed | CriticalFailure

text \<open>The two loop variables \<open>consecutive_failures\<close> and \<open>warning_logged\<close>.\<close>

record monitor_state =
  consecutive_failures :: int
  warning_logged :: bool

definition initial_state :: monitor_state where
  "initial_state = \<lparr>consecutive_failures = 0, warning_logged = False\<rparr>"

definition MAX_CONSECUTIVE_FAILURES :: int where
  "MAX_CONSECUTIVE_FAILURES = 5"

text \<open>
  How a process stops: \<open>sys.exit(code)\<close>, or an exception nobody catches, on which
  the interpreter prints the traceback and exits with status 1.
\<close>

datatype stop = SysExit int | Uncaught py_exception


text \<open>A pass either falls through to the sleep and the next pass, or stops the process.\<close>

datatype flow = Continue monitor_state | Stop stop

text \<open>
  The \<open>except Exception\<close> branch, identical in the three monitors (pct2075\_safety.py
  lines 143-153, mcp9601\_safety.py lines 170-180, ina219\_safety.py lines 192-202).
  It runs with the state as it was when the \<open>try\<close> block raised.
\<close>

definition on_read_failure :: "monitor_state \<Rightarrow> action \<times> flow" where
  "on_read_failure s =
     (let n = consecutive_failures s + 1 in
      if n \<ge> MAX_CONSECUTIVE_FAILURES
      then (CriticalFailure, Continue (s\<lparr>consecutive_failures := 0\<rparr>))
      else (ReadFailed, Continue (s\<lparr>consecutive_failures := n\<rparr>)))"

record base_config =
  i2c_address :: int
  poll_interval :: rat

record temp_config = base_config +
  warning_temp :: rat
  shutdown_temp :: rat

record mcp9601_config = temp_config +
  thermocouple_type :: string

record ina219_config = base_config +
  warning_percent :: rat
  shutdown_percent :: rat
  cell_count :: int

text \<open>
  Sensor attributes are read through an \<open>option\<close>: \<open>None\<close> is a read that raised,
  which sends the pass to the \<open>except\<close> branch before \<open>consecutive_failures\<close> is reset.
  \<open>trigger_shutdown\<close> logs the reason and runs the \<open>shutdown\<close> command; it returns
  whether the command succeeds or fails with \<open>CalledProcessError\<close>, which it catches
  (the command is taken to exist: an exception of another class from
  \<open>subprocess.run\<close> is left out). The pass then sleeps 70 seconds and calls
  \<open>sys.exit(1)\<close>, which \<open>except Exception\<close> does not catch.
\<close>

subsection \<open>pct2075\_safety.py\<close>

text \<open>One pass of the loop: the \<open>try\<close> statement of lines 121-153.\<close>

definition pct2075_iteration ::
  "'a temp_config_scheme \<Rightarrow> monitor_state \<Rightarrow> rat option \<Rightarrow> action \<times> flow" where
  "pct2075_iteration cfg s sensor_temperature =
     (case sensor_temperature of
        None \<Rightarrow> on_read_failure s
      | Some temperature \<Rightarrow>
          let s0 = s\<lparr>consecutive_failures := 0\<rparr> in
          if temperature \<ge> shutdown_temp cfg then (Shutdown, Stop (SysExit 1))
          else if temperature \<ge> warning_temp cfg then
            (if \<not> warning_logged s0
             then (WarnRaised, Continue (s0\<lparr>warning_logged := True\<rparr>))
             else (NoAction, Continue s0))
          else
            (if warning_logged s0
             then (WarnCleared, Continue (s0\<lparr>warning_logged := False\<rparr>))
             else (NoAction, Continue s0)))"

subsection \<open>mcp9601\_safety.py\<close>

record mcp9601_sensor =
  temperature :: "rat option"
  ambient_temperature :: "rat option"

text \<open>
  One pass of the loop: the \<open>try\<close> statement of lines 145-180. Both attributes are
  read, the ambient one only to be logged.
\<close>

definition mcp9601_iteration ::
  "'a temp_config_scheme \<Rightarrow> monitor_state \<Rightarrow> mcp9601_sensor \<Rightarrow> action \<times> flow" where
  "mcp9601_iteration cfg s sensor =
     (case do { hot_temp \<leftarrow> temperature sensor;
                ambient_temp \<leftarrow> ambient_temperature sensor;
                Some (hot_temp, ambient_temp) } of
        None \<Rightarrow> on_read_failure s
      | Some (hot_temp, ambient_temp) \<Rightarrow>
          let s0 = s\<lparr>consecutive_failures := 0\<rparr> in
          if hot_temp \<ge> shutdown_temp cfg then (Shutdown, Stop (SysExit 1))
          else if hot_temp \<ge> warning_temp cfg then
            (if \<not> warning_logged s0
             then (WarnRaised, Continue (s0\<lparr>warning_logged := True\<rparr>))
             else (NoAction, Continue s0))
          else
            (if warning_logged s0
             then (WarnCleared, Continue (s0\<lparr>warning_logged := False\<rparr>))
             else (NoAction, Continue s0)))"

subsection \<open>ina219\_safety.py\<close>

record ina219_sensor =
  bus_voltage :: "rat option"
  shunt_voltage :: "rat option"
  current :: "rat option"

text \<open>
  The head of the \<open>try\<close> block (lines 157-164), up to \<open>is_charging = current_ma > 0\<close>:
  the battery percent and the charging flag, or \<open>None\<close> when a read or the percent
  computation raised.
\<close>

definition ina219_read :: "'a ina219_config_scheme \<Rightarrow> ina219_sensor \<Rightarrow> (rat \<times> bool) option" where
  "ina219_read cfg sensor =
     do { bus \<leftarrow> bus_voltage sensor;
          shunt \<leftarrow> shunt_voltage sensor;
          let voltage = fadd bus shunt;
          current_ma \<leftarrow> current sensor;
          battery_percent \<leftarrow>
            (case calculate_battery_percent voltage (cell_count cfg) of
               Inl e \<Rightarrow> None | Inr p \<Rightarrow> Some p);
          let is_charging = (current_ma > 0);
          Some (battery_percent, is_charging) }"

text \<open>One pass of the loop: the \<open>try\<close> statement of lines 156-202.\<close>

definition ina219_iteration ::
  "'a ina219_config_scheme \<Rightarrow> monitor_state \<Rightarrow> ina219_sensor \<Rightarrow> action \<times> flow" where
  "ina219_iteration cfg s sensor =
     (case ina219_read cfg sensor of
        None \<Rightarrow> on_read_failure s
      | Some (battery_percent, is_charging) \<Rightarrow>
          let s0 = s\<lparr>consecutive_failures := 0\<rparr> in
          if \<not> is_charging \<and> battery_percent \<le> shutdown_percent cfg then (Shutdown, Stop (SysExit 1))
          else if \<not> is_charging \<and> battery_percent \<le> warning_percent cfg then
            (if \<not> warning_logged s0
             then (WarnRaised, Continue (s0\<lparr>warning_logged := True\<rparr>))
             else (NoAction, Continue s0))
          else
            (if warning_logged s0
             then (WarnCleared, Continue (s0\<lparr>warning_logged := False\<rparr>))
             else (NoAction, Continue s0)))"

subsection \<open>The loop over successive polls\<close>

text \<open>
  \<open>time.sleep(poll_interval)\<close> stands after the \<open>try\<close> statement, so what it raises is
  caught by nobody: \<open>ValueError\<close> on a negative argument. (The \<open>OverflowError\<close> of an
  argument beyond the platform's time range is left out.)
\<close>

definition time_sleep :: "rat \<Rightarrow> py_exception option" where
  "time_sleep secs = (if secs < 0 then Some ValueError else None)"

text \<open>
  \<open>while True\<close> over the successive answers of the sensor: the actions of the passes
  in order, and where the loop stands after the last answer given. The loop itself
  never ends; the process stops by \<open>sys.exit\<close> in a pass or by the exception of the
  sleep.
\<close>

fun monitor_loop ::
  "rat \<Rightarrow> (monitor_state \<Rightarrow> 'r \<Rightarrow> action \<times> flow) \<Rightarrow> monitor_state \<Rightarrow> 'r list
     \<Rightarrow> action list \<times> flow" where
  "monitor_loop poll iteration s [] = ([], Continue s)"
| "monitor_loop poll iteration s (r # rs) =
     (case iteration s r of
        (a, Stop t) \<Rightarrow> ([a], Stop t)
      | (a, Continue s') \<Rightarrow>
          (case time_sleep poll of
             Some e \<Rightarrow> ([a], Stop (Uncaught e))
           | None \<Rightarrow>
               (case monitor_loop poll iteration s' rs of (as, fin) \<Rightarrow> (a # as, fin))))"

definition pct2075_loop ::
  "'a temp_config_scheme \<Rightarrow> monitor_state \<Rightarrow> rat option list \<Rightarrow> action list \<times> flow" where
  "pct2075_loop cfg = monitor_loop (poll_interval cfg) (pct2075_iteration cfg)"

definition mcp9601_loop ::
  "'a temp_config_scheme \<Rightarrow> monitor_state \<Rightarrow> mcp9601_sensor list \<Rightarrow> action list \<times> flow" where
  "mcp9601_loop cfg = monitor_loop (poll_interval cfg) (mcp9601_iteration cfg)"

definition ina219_loop ::
  "'a ina219_config_scheme \<Rightarrow> monitor_state \<Rightarrow> ina219_sensor list \<Rightarrow> action list \<times> flow" where
  "ina219_loop cfg = monitor_loop (poll_interval cfg) (ina219_iteration cfg)"

section \<open>Start-up of the monitors\<close>

text \<open>
  The value \<open>yaml.safe_load\<close> returns: the scalars, sequences, and mappings with
  string keys (as the items of the resulting \<open>dict\<close>). Floats are finite.
\<close>

datatype yaml = YNull | YBool bool | YInt int | YFloat rat | YStr string
  | YSeq "yaml list" | YMap "(string \<times> yaml) list"























section \<open>The worker pool of ups\_benchmark.py\<close>

text \<open>The class \<open>WorkerPool\<close>, lines 64-116.\<close>

text \<open>
  What the pool asks of \<open>multiprocessing\<close>, in order: a process started, an event
  set, a process joined with the two-second timeout, a process terminated.
\<close>

datatype os_call = Start nat | EventSet nat | Join nat | Terminate nat

text \<open>
  The processes and events outside the pool object: the next unused handle, the
  processes running, the events set, the processes that do not leave their burn loop
  within the join timeout even when told to stop, and the calls made so far.
  \<open>Process.start\<close> is taken to succeed.
\<close>

record os_state =
  fresh :: nat
  alive :: "nat set"
  events_set :: "nat set"
  slow :: "nat \<Rightarrow> bool"
  calls :: "os_call list"

text \<open>A worker is its process together with the stop event passed to it in \<open>args\<close>.\<close>

record worker_pool =
  max_workers :: int
  workers :: "(nat \<times> nat) list"
  stop_events :: "nat list"

definition WorkerPool :: "int \<Rightarrow> worker_pool" where
  "WorkerPool m = \<lparr>max_workers = m, workers = [], stop_events = []\<rparr>"

definition event_set :: "nat \<Rightarrow> os_state \<Rightarrow> os_state" where
  "event_set e os = os\<lparr>events_set := insert e (events_set os), calls := calls os @ [EventSet e]\<rparr>"

text \<open>
  \<open>worker.join(timeout=2.0)\<close>: the process ends within the timeout when its event is
  set and it is not slow.
\<close>

definition join :: "nat \<times> nat \<Rightarrow> os_state \<Rightarrow> os_state" where
  "join worker os =
     (let (pid, ev) = worker in
      os\<lparr>alive := (if ev \<in> events_set os \<and> \<not> slow os pid then alive os - {pid} else alive os),
         calls := calls os @ [Join pid]\<rparr>)"

definition is_alive :: "nat \<times> nat \<Rightarrow> os_state \<Rightarrow> bool" where
  "is_alive worker os = (fst worker \<in> alive os)"

definition terminate :: "nat \<times> nat \<Rightarrow> os_state \<Rightarrow> os_state" where
  "terminate worker os =
     os\<lparr>alive := alive os - {fst worker}, calls := calls os @ [Terminate (fst worker)]\<rparr>"

text \<open>\<open>worker.join(timeout=2.0)\<close>, then \<open>worker.terminate()\<close> if it is still alive.\<close>

definition join_or_terminate :: "nat \<times> nat \<Rightarrow> os_state \<Rightarrow> os_state" where
  "join_or_terminate worker os =
     (let os1 = join worker os in
      if is_alive worker os1 then terminate worker os1 else os1)"






definition shutdown :: "worker_pool \<Rightarrow> os_state \<Rightarrow> worker_pool \<times> os_state" where
  "shutdown self os =
     (let os1 = foldl (\<lambda>os event. event_set event os) os (stop_events self);
          os2 = foldl (\<lambda>os worker. join_or_terminate worker os) os1 (workers self)
      in (self\<lparr>workers := [], stop_events := []\<rparr>, os2))"

text \<open>
  The two lists of a pool built by \<open>WorkerPool\<close> and changed by its methods only
  run in step: the stop event at each position is the one its worker watches.
\<close>

definition pool_ok :: "worker_pool \<Rightarrow> bool" where
  "pool_ok self = (map snd (workers self) = stop_events self)"

section \<open>Test fixtures\<close>

text \<open>
  The \<open>mock_config\<close> fixtures of the three test files (addresses 0x37, 0x67 and
  0x42), and the mock INA219 sensor as the tests set it: a bus voltage, a shunt
  voltage of 0 and a current.
\<close>

abbreviation pct2075_mock_config :: temp_config where
  "pct2075_mock_config \<equiv>
     \<lparr>i2c_address = 55, poll_interval = 1, warning_temp = 70, shutdown_temp = 80\<rparr>"

abbreviation mcp9601_mock_config :: mcp9601_config where
  "mcp9601_mock_config \<equiv>
     \<lparr>i2c_address = 103, poll_interval = 1, warning_temp = 60, shutdown_temp = 75,
      thermocouple_type = ''K''\<rparr>"

abbreviation ina219_mock_config :: ina219_config where
  "ina219_mock_config \<equiv>
     \<lparr>i2c_address = 66, poll_interval = 1, warning_percent = 15, shutdown_percent = 5,
      cell_count = 3\<rparr>"

abbreviation mock_battery :: "rat \<Rightarrow> rat \<Rightarrow> ina219_sensor" where
  "mock_battery volts milliamps \<equiv>
     \<lparr>bus_voltage = Some volts, shunt_voltage = Some 0, current = Some milliamps\<rparr>"

abbreviation mock_thermocouple :: "rat \<Rightarrow> mcp9601_sensor" where
  "mock_thermocouple hot \<equiv> \<lparr>temperature = Some hot, ambient_temperature = Some 22\<rparr>"

text \<open>The loop state with a warning logged.\<close>

abbreviation warned_state :: monitor_state where
  "warned_state \<equiv> \<lparr>consecutive_failures = 0, warning_logged = True\<rparr>"






section \<open>Rounding: monotonicity and evaluation\<close>

text \<open>
  \<open>round_double\<close> is monotone, and its value at a given rational follows from the
  binary exponent and the nearest 53-bit mantissa (\<open>round_double_eqI\<close>, and
  \<open>round_double_tieI\<close> for a tie), which reduces every concrete rounding below to
  arithmetic on numerals.
\<close>

lemma round_half_even_mono: "x \<le> y \<Longrightarrow> round_half_even x \<le> round_half_even y"
proof -
  assume xy: "x \<le> y"
  have fl: "\<lfloor>x\<rfloor> \<le> \<lfloor>y\<rfloor>" using xy by (rule floor_mono)
  show ?thesis
  proof (cases "\<lfloor>x\<rfloor> = \<lfloor>y\<rfloor>")
    case True
    then have "x - of_int \<lfloor>x\<rfloor> \<le> y - of_int \<lfloor>y\<rfloor>" using xy by simp
    then show ?thesis using True
      by (auto simp: round_half_even_def Let_def)
  next
    case False
    then have "\<lfloor>x\<rfloor> + 1 \<le> \<lfloor>y\<rfloor>" using fl by linarith
    moreover have "round_half_even x \<le> \<lfloor>x\<rfloor> + 1"
      by (auto simp: round_half_even_def Let_def)
    moreover have "\<lfloor>y\<rfloor> \<le> round_half_even y"
      by (auto simp: round_half_even_def Let_def)
    ultimately show ?thesis by linarith
  qed
qed

lemma round_half_even_of_int [simp]: "round_half_even (of_int n) = n"
  by (simp add: round_half_even_def)

lemma ilog2_bounds:
  assumes "0 < x"
  shows "2 powi (ilog2 x) \<le> x \<and> x < 2 powi (ilog2 x + 1)"
proof -
  obtain p q where pq: "quotient_of x = (p, q)" by (cases "quotient_of x")
  then have q: "0 < q" by (rule quotient_of_denom_pos)
  have x: "x = of_int p / of_int q" using pq by (rule quotient_of_div)
  have p: "0 < p" using assms q x by (simp add: zero_less_divide_iff)
  define bp where "bp = bitlen p"
  define bq where "bq = bitlen q"
  have bp1: "1 \<le> bp" using p by (auto simp: bp_def bitlen_alt_def)
  have bq1: "1 \<le> bq" using q by (auto simp: bq_def bitlen_alt_def)
  from bitlen_bounds[OF p] have pb: "2 ^ nat (bp - 1) \<le> p" "p < 2 ^ nat bp"
    by (simp_all add: bp_def)
  from bitlen_bounds[OF q] have qb: "2 ^ nat (bq - 1) \<le> q" "q < 2 ^ nat bq"
    by (simp_all add: bq_def)
  have rp: "(2::rat) powi (bp - 1) \<le> of_int p" "of_int p < (2::rat) powi bp"
  proof -
    have "(of_int (2 ^ nat (bp - 1)) :: rat) \<le> of_int p" using pb(1) by (simp only: of_int_le_iff)
    then show "(2::rat) powi (bp - 1) \<le> of_int p" using bp1 by (simp add: power_int_def)
    have "(of_int p :: rat) < of_int (2 ^ nat bp)" using pb(2) by (simp only: of_int_less_iff)
    then show "of_int p < (2::rat) powi bp" using bp1 by (simp add: power_int_def)
  qed
  have rq: "(2::rat) powi (bq - 1) \<le> of_int q" "of_int q < (2::rat) powi bq"
  proof -
    have "(of_int (2 ^ nat (bq - 1)) :: rat) \<le> of_int q" using qb(1) by (simp only: of_int_le_iff)
    then show "(2::rat) powi (bq - 1) \<le> of_int q" using bq1 by (simp add: power_int_def)
    have "(of_int q :: rat) < of_int (2 ^ nat bq)" using qb(2) by (simp only: of_int_less_iff)
    then show "of_int q < (2::rat) powi bq" using bq1 by (simp add: power_int_def)
  qed
  have qpos: "(0::rat) < of_int q" using q by simp
  have lo: "(2::rat) powi (bp - bq - 1) < x"
  proof -
    have "(2::rat) powi (bp - bq - 1) * of_int q < 2 powi (bp - bq - 1) * 2 powi bq"
      using rq(2) by (simp add: mult_strict_left_mono)
    also have "\<dots> = 2 powi (bp - 1)"
      by (simp add: power_int_add [symmetric])
    also have "\<dots> \<le> of_int p" by (rule rp(1))
    finally show ?thesis using qpos by (simp add: x pos_less_divide_eq)
  qed
  have hi: "x < (2::rat) powi (bp - bq + 1)"
  proof -
    have "of_int p < (2::rat) powi bp" by (rule rp(2))
    also have "\<dots> = 2 powi (bp - bq + 1) * 2 powi (bq - 1)"
      by (simp add: power_int_add [symmetric])
    also have "\<dots> \<le> 2 powi (bp - bq + 1) * of_int q"
      using rq(1) by (simp add: mult_left_mono)
    finally show ?thesis using qpos by (simp add: x pos_divide_less_eq)
  qed
  show ?thesis
  proof (cases "(2::rat) powi (bp - bq) \<le> x")
    case True
    then have "ilog2 x = bp - bq" by (simp add: ilog2_def pq bp_def bq_def)
    then show ?thesis using True hi by simp
  next
    case False
    then have "ilog2 x = bp - bq - 1" by (simp add: ilog2_def pq bp_def bq_def)
    then show ?thesis using False lo by simp
  qed
qed

lemma ilog2_eqI:
  assumes "2 powi k \<le> x" "x < 2 powi (k + 1)"
  shows "ilog2 x = k"
proof -
  have x: "0 < x" using assms(1) by (rule less_le_trans [rotated]) simp
  have b: "2 powi (ilog2 x) \<le> x" "x < 2 powi (ilog2 x + 1)"
    using ilog2_bounds[OF x] by simp_all
  have 1: "k < ilog2 x + 1"
  proof (rule ccontr)
    assume "\<not> k < ilog2 x + 1"
    then have "(2::rat) powi (ilog2 x + 1) \<le> 2 powi k"
      by (simp add: power_int_increasing)
    then show False using assms(1) b(2) by linarith
  qed
  have 2: "ilog2 x < k + 1"
  proof (rule ccontr)
    assume "\<not> ilog2 x < k + 1"
    then have "(2::rat) powi (k + 1) \<le> 2 powi (ilog2 x)"
      by (simp add: power_int_increasing)
    then show False using assms(2) b(1) by linarith
  qed
  show ?thesis using 1 2 by linarith
qed

lemma round_half_even_eqI:
  assumes "\<bar>x - of_int n\<bar> < 1 / 2"
  shows "round_half_even x = n"
proof -
  consider "of_int n \<le> x" | "x < of_int n" by linarith
  then show ?thesis
  proof cases
    case 1
    then have "\<lfloor>x\<rfloor> = n" using assms by (intro floor_unique) auto
    then show ?thesis using assms 1 by (simp add: round_half_even_def)
  next
    case 2
    then have "\<lfloor>x\<rfloor> = n - 1" using assms by (intro floor_unique) auto
    then show ?thesis using assms 2 by (auto simp: round_half_even_def)
  qed
qed

lemma round_double_eqI:
  assumes "2 powi k \<le> x" "x < 2 powi (k + 1)"
    and "\<bar>x / 2 powi (k - 52) - of_int m\<bar> < 1 / 2"
  shows "round_double x = of_int m * 2 powi (k - 52)"
proof -
  have x: "0 < x" using assms(1) by (rule less_le_trans [rotated]) simp
  have "ilog2 x = k" using assms(1,2) by (rule ilog2_eqI)
  moreover have "round_half_even (x / 2 powi (k - 52)) = m"
    using assms(3) by (rule round_half_even_eqI)
  ultimately show ?thesis using x by (simp add: round_double_def Let_def)
qed

lemma ilog2_mono:
  assumes "0 < x" "x \<le> y"
  shows "ilog2 x \<le> ilog2 y"
proof (rule ccontr)
  assume "\<not> ilog2 x \<le> ilog2 y"
  then have "ilog2 y + 1 \<le> ilog2 x" by simp
  then have "(2::rat) powi (ilog2 y + 1) \<le> 2 powi (ilog2 x)"
    by (simp add: power_int_increasing)
  moreover have "y < 2 powi (ilog2 y + 1)" using ilog2_bounds[of y] assms by simp
  moreover have "2 powi (ilog2 x) \<le> x" using ilog2_bounds[of x] assms by simp
  ultimately show False using assms by linarith
qed

lemma round_double_tieI:
  assumes "2 powi k \<le> x" "x < 2 powi (k + 1)"
    and "x / 2 powi (k - 52) = of_int f + 1 / 2"
  shows "round_double x = of_int (if even f then f else f + 1) * 2 powi (k - 52)"
proof -
  have x: "0 < x" using assms(1) by (rule less_le_trans [rotated]) simp
  have "ilog2 x = k" using assms(1,2) by (rule ilog2_eqI)
  moreover have "\<lfloor>x / 2 powi (k - 52)\<rfloor> = f"
    unfolding assms(3) by (intro floor_unique) auto
  then have "round_half_even (x / 2 powi (k - 52)) = (if even f then f else f + 1)"
    using assms(3) by (simp add: round_half_even_def)
  ultimately show ?thesis using x by (simp add: round_double_def Let_def)
qed

lemma round_double_0 [simp]: "round_double 0 = 0"
  by (simp add: round_double_def)

lemma round_double_pos_bounds:
  assumes "0 < x"
  shows "2 powi (ilog2 x) \<le> round_double x \<and> round_double x \<le> 2 powi (ilog2 x + 1)"
proof -
  define e where "e = ilog2 x - 52"
  define m where "m = round_half_even (x / 2 powi e)"
  have pe: "(0::rat) < 2 powi e" by simp
  have rd: "round_double x = of_int m * 2 powi e"
    using assms by (simp add: round_double_def e_def m_def Let_def)
  have b: "2 powi (ilog2 x) \<le> x" "x < 2 powi (ilog2 x + 1)"
    using ilog2_bounds[OF assms] by simp_all
  have e1: "(2::rat) powi (ilog2 x) = 2 ^ 52 * 2 powi e"
    by (simp add: e_def power_int_diff)
  have e2: "(2::rat) powi (ilog2 x + 1) = 2 ^ 53 * 2 powi e"
    by (simp add: e_def power_int_diff power_int_add)
  have "(2::rat) ^ 52 \<le> x / 2 powi e"
    using b(1) pe by (simp add: e1 pos_le_divide_eq)
  then have "round_half_even (of_int (2 ^ 52)) \<le> m"
    unfolding m_def by (intro round_half_even_mono) simp
  then have lo: "2 ^ 52 \<le> m" by (simp only: round_half_even_of_int)
  have "x / 2 powi e \<le> (2::rat) ^ 53"
    using b(2) pe by (simp add: e2 pos_divide_le_eq)
  then have "m \<le> round_half_even (of_int (2 ^ 53))"
    unfolding m_def by (intro round_half_even_mono) simp
  then have hi: "m \<le> 2 ^ 53" by (simp only: round_half_even_of_int)
  have "(2::rat) ^ 52 \<le> of_int m" using lo
    by (metis of_int_le_iff of_int_numeral of_int_power)
  then have A: "2 powi (ilog2 x) \<le> round_double x"
    unfolding rd e1 using pe by (simp add: mult_right_mono)
  have "of_int m \<le> (2::rat) ^ 53" using hi
    by (metis of_int_le_iff of_int_numeral of_int_power)
  then have B: "round_double x \<le> 2 powi (ilog2 x + 1)"
    unfolding rd e2 using pe by (simp add: mult_right_mono)
  show ?thesis using A B by simp
qed

lemma round_double_neg: "round_double (- x) = - round_double x"
  by (simp add: round_double_def Let_def)

lemma round_double_pos: "0 < x \<Longrightarrow> 0 < round_double x"
  using round_double_pos_bounds[of x]
  by (metis less_le_trans zero_less_numeral zero_less_power_int)

lemma round_double_mono_pos:
  assumes "0 < x" "x \<le> y"
  shows "round_double x \<le> round_double y"
proof (cases "ilog2 x = ilog2 y")
  case True
  have y: "0 < y" using assms by simp
  have "x / 2 powi (ilog2 y - 52) \<le> y / 2 powi (ilog2 y - 52)"
    using assms(2) by (simp add: divide_right_mono)
  then have "round_half_even (x / 2 powi (ilog2 y - 52)) \<le> round_half_even (y / 2 powi (ilog2 y - 52))"
    by (rule round_half_even_mono)
  then show ?thesis using assms y True
    by (simp add: round_double_def Let_def mult_right_mono)
next
  case False
  have y: "0 < y" using assms by simp
  from False ilog2_mono[OF assms] have "ilog2 x + 1 \<le> ilog2 y" by simp
  then have "(2::rat) powi (ilog2 x + 1) \<le> 2 powi (ilog2 y)"
    by (simp add: power_int_increasing)
  then show ?thesis
    using round_double_pos_bounds[OF assms(1)] round_double_pos_bounds[OF y] by linarith
qed

lemma round_double_mono: "x \<le> y \<Longrightarrow> round_double x \<le> round_double y"
proof -
  assume xy: "x \<le> y"
  consider "0 < x" | "x \<le> 0" "0 \<le> y" | "y < 0" using xy by linarith
  then show ?thesis
  proof cases
    case 1
    then show ?thesis using xy by (rule round_double_mono_pos)
  next
    case 2
    have "round_double x \<le> 0"
    proof (cases "x = 0")
      case True then show ?thesis by simp
    next
      case False
      then have "0 < - x" using 2 by simp
      then have "0 < round_double (- x)" by (rule round_double_pos)
      then show ?thesis by (simp add: round_double_neg)
    qed
    moreover have "0 \<le> round_double y"
    proof (cases "y = 0")
      case True then show ?thesis by simp
    next
      case False
      then have "0 < y" using 2 by simp
      then show ?thesis using round_double_pos[of y] by simp
    qed
    ultimately show ?thesis by linarith
  next
    case 3
    then have "0 < - y" "- y \<le> - x" using xy by simp_all
    then have "round_double (- y) \<le> round_double (- x)" by (rule round_double_mono_pos)
    then show ?thesis by (simp add: round_double_neg)
  qed
qed

text \<open>
  The roundings met when \<open>calculate_battery_percent\<close> is evaluated for one to six
  cells and at the voltages 12.6, 10.8, 9.504, 9.144, 13 and 8.
\<close>

lemma rd_1: "round_double (21 / 5) = 4728779608739021 / 1125899906842624"
  using round_double_eqI [of "2" "21 / 5" "4728779608739021"] by simp

lemma rd_2: "round_double 3 = 3"
  using round_double_eqI [of "1" "3" "6755399441055744"] by simp

lemma rd_3: "round_double 1 = 1"
  using round_double_eqI [of "0" "1" "4503599627370496"] by simp

lemma rd_4: "round_double (4728779608739021 / 1125899906842624) = 4728779608739021 / 1125899906842624"
  using round_double_eqI [of "2" "4728779608739021 / 1125899906842624" "4728779608739021"] by simp

lemma rd_5: "round_double (1351079888211149 / 1125899906842624) = 1351079888211149 / 1125899906842624"
  using round_double_eqI [of "0" "1351079888211149 / 1125899906842624" "5404319552844596"] by simp

lemma rd_6: "round_double 2 = 2"
  using round_double_eqI [of "1" "2" "4503599627370496"] by simp

lemma rd_7: "round_double (4728779608739021 / 562949953421312) = 4728779608739021 / 562949953421312"
  using round_double_eqI [of "3" "4728779608739021 / 562949953421312" "4728779608739021"] by simp

lemma rd_8: "round_double 6 = 6"
  using round_double_eqI [of "2" "6" "6755399441055744"] by simp

lemma rd_9: "round_double (1351079888211149 / 562949953421312) = 1351079888211149 / 562949953421312"
  using round_double_eqI [of "1" "1351079888211149 / 562949953421312" "5404319552844596"] by simp

lemma rd_10: "round_double (14186338826217063 / 1125899906842624) = 1773292353277133 / 140737488355328"
  using round_double_tieI [of "3" "14186338826217063 / 1125899906842624" "7093169413108531"] by simp

lemma rd_11: "round_double 9 = 9"
  using round_double_eqI [of "3" "9" "5066549580791808"] by simp

lemma rd_12: "round_double (506654958079181 / 140737488355328) = 506654958079181 / 140737488355328"
  using round_double_eqI [of "1" "506654958079181 / 140737488355328" "8106479329266896"] by simp

lemma rd_13: "round_double 4 = 4"
  using round_double_eqI [of "2" "4" "4503599627370496"] by simp

lemma rd_14: "round_double (4728779608739021 / 281474976710656) = 4728779608739021 / 281474976710656"
  using round_double_eqI [of "4" "4728779608739021 / 281474976710656" "4728779608739021"] by simp

lemma rd_15: "round_double 12 = 12"
  using round_double_eqI [of "3" "12" "6755399441055744"] by simp

lemma rd_16: "round_double (1351079888211149 / 281474976710656) = 1351079888211149 / 281474976710656"
  using round_double_eqI [of "2" "1351079888211149 / 281474976710656" "5404319552844596"] by simp

lemma rd_17: "round_double 5 = 5"
  using round_double_eqI [of "2" "5" "5629499534213120"] by simp

lemma rd_18: "round_double (23643898043695105 / 1125899906842624) = 21"
  using round_double_eqI [of "4" "23643898043695105 / 1125899906842624" "5910974510923776"] by simp

lemma rd_19: "round_double 15 = 15"
  using round_double_eqI [of "3" "15" "8444249301319680"] by simp

lemma rd_20: "round_double (14186338826217063 / 562949953421312) = 1773292353277133 / 70368744177664"
  using round_double_tieI [of "4" "14186338826217063 / 562949953421312" "7093169413108531"] by simp

lemma rd_21: "round_double 18 = 18"
  using round_double_eqI [of "4" "18" "5066549580791808"] by simp

lemma rd_22: "round_double (506654958079181 / 70368744177664) = 506654958079181 / 70368744177664"
  using round_double_eqI [of "2" "506654958079181 / 70368744177664" "8106479329266896"] by simp

lemma rd_23: "round_double 100 = 100"
  using round_double_eqI [of "6" "100" "7036874417766400"] by simp

lemma rd_24: "round_double (63 / 5) = 7093169413108531 / 562949953421312"
  using round_double_eqI [of "3" "63 / 5" "7093169413108531"] by simp

lemma rd_25: "round_double (7093169413108531 / 562949953421312) = 7093169413108531 / 562949953421312"
  using round_double_eqI [of "3" "7093169413108531 / 562949953421312" "7093169413108531"] by simp

lemma rd_26: "round_double (2026619832316723 / 562949953421312) = 2026619832316723 / 562949953421312"
  using round_double_eqI [of "1" "2026619832316723 / 562949953421312" "8106479329266892"] by simp

lemma rd_27: "round_double (2026619832316723 / 2026619832316724) = 2251799813685247 / 2251799813685248"
  using round_double_eqI [of "- 1" "2026619832316723 / 2026619832316724" "9007199254740988"] by simp

lemma rd_28: "round_double (56294995342131175 / 562949953421312) = 7036874417766397 / 70368744177664"
  using round_double_eqI [of "6" "56294995342131175 / 562949953421312" "7036874417766397"] by simp

lemma rd_29: "round_double (54 / 5) = 3039929748475085 / 281474976710656"
  using round_double_eqI [of "3" "54 / 5" "6079859496950170"] by simp

lemma rd_30: "round_double (3039929748475085 / 281474976710656) = 3039929748475085 / 281474976710656"
  using round_double_eqI [of "3" "3039929748475085 / 281474976710656" "6079859496950170"] by simp

lemma rd_31: "round_double (506654958079181 / 281474976710656) = 506654958079181 / 281474976710656"
  using round_double_eqI [of "0" "506654958079181 / 281474976710656" "8106479329266896"] by simp

lemma rd_32: "round_double (1 / 2) = 1 / 2"
  using round_double_eqI [of "- 1" "1 / 2" "4503599627370496"] by simp

lemma rd_33: "round_double 50 = 50"
  using round_double_eqI [of "5" "50" "7036874417766400"] by simp

lemma rd_34: "round_double (1188 / 125) = 5350276357316149 / 562949953421312"
  using round_double_eqI [of "3" "1188 / 125" "5350276357316149"] by simp

lemma rd_35: "round_double (5350276357316149 / 562949953421312) = 5350276357316149 / 562949953421312"
  using round_double_eqI [of "3" "5350276357316149 / 562949953421312" "5350276357316149"] by simp

lemma rd_36: "round_double (283726776524341 / 562949953421312) = 283726776524341 / 562949953421312"
  using round_double_eqI [of "- 1" "283726776524341 / 562949953421312" "4539628424389456"] by simp

lemma rd_37: "round_double (283726776524341 / 2026619832316724) = 5044031582654949 / 36028797018963968"
  using round_double_eqI [of "- 3" "283726776524341 / 2026619832316724" "5044031582654949"] by simp

lemma rd_38: "round_double (126100789566373725 / 9007199254740992) = 3940649673949179 / 281474976710656"
  using round_double_eqI [of "3" "126100789566373725 / 9007199254740992" "7881299347898358"] by simp

lemma rd_39: "round_double (1143 / 125) = 5147614374084477 / 562949953421312"
  using round_double_eqI [of "3" "1143 / 125" "5147614374084477"] by simp

lemma rd_40: "round_double (5147614374084477 / 562949953421312) = 5147614374084477 / 562949953421312"
  using round_double_eqI [of "3" "5147614374084477 / 562949953421312" "5147614374084477"] by simp

lemma rd_41: "round_double (81064793292669 / 562949953421312) = 81064793292669 / 562949953421312"
  using round_double_eqI [of "- 3" "81064793292669 / 562949953421312" "5188146770730816"] by simp

lemma rd_42: "round_double (81064793292669 / 2026619832316724) = 2882303761517119 / 72057594037927936"
  using round_double_eqI [of "- 5" "81064793292669 / 2026619832316724" "5764607523034238"] by simp

lemma rd_43: "round_double (72057594037927975 / 18014398509481984) = 2251799813685249 / 562949953421312"
  using round_double_eqI [of "2" "72057594037927975 / 18014398509481984" "4503599627370498"] by simp

lemma rd_44: "round_double (562949953421312 / 506654958079181) = 312749974122951 / 281474976710656"
  using round_double_eqI [of "0" "562949953421312 / 506654958079181" "5003999585967216"] by simp

lemma rd_45: "round_double (7818749353073775 / 70368744177664) = 7818749353073775 / 70368744177664"
  using round_double_eqI [of "6" "7818749353073775 / 70368744177664" "7818749353073775"] by simp

lemma rd_46: "round_double (140737488355328 / 506654958079181) = 312749974122951 / 1125899906842624"
  using round_double_eqI [of "- 2" "140737488355328 / 506654958079181" "5003999585967216"] by simp

lemma rd_47: "round_double (7818749353073775 / 281474976710656) = 7818749353073775 / 281474976710656"
  using round_double_eqI [of "4" "7818749353073775 / 281474976710656" "7818749353073775"] by simp

lemmas rd_evals = rd_1 rd_2 rd_3 rd_4 rd_5 rd_6 rd_7 rd_8 rd_9 rd_10 rd_11 rd_12 rd_13 rd_14 rd_15 rd_16 rd_17 rd_18 rd_19 rd_20 rd_21 rd_22 rd_23 rd_24 rd_25 rd_26 rd_27 rd_28 rd_29 rd_30 rd_31 rd_32 rd_33 rd_34 rd_35 rd_36 rd_37 rd_38 rd_39 rd_40 rd_41 rd_42 rd_43 rd_44 rd_45 rd_46 rd_47

lemma voltage_full_values:
  "voltage_full 1 = 4728779608739021 / 1125899906842624"
  "voltage_full 2 = 4728779608739021 / 562949953421312"
  "voltage_full 3 = 1773292353277133 / 140737488355328"
  "voltage_full 4 = 4728779608739021 / 281474976710656"
  "voltage_full 5 = 21"
  "voltage_full 6 = 1773292353277133 / 70368744177664"
  by (simp_all add: voltage_full_def CELL_VOLTAGE_FULL_def fmul_def float_of_int_def rd_evals)

lemma voltage_empty_values:
  "voltage_empty 1 = 3" "voltage_empty 2 = 6" "voltage_empty 3 = 9"
  "voltage_empty 4 = 12" "voltage_empty 5 = 15" "voltage_empty 6 = 18"
  by (simp_all add: voltage_empty_def CELL_VOLTAGE_EMPTY_def fmul_def float_of_int_def rd_evals)

lemma voltage_range_values:
  "voltage_range 1 = 1351079888211149 / 1125899906842624"
  "voltage_range 2 = 1351079888211149 / 562949953421312"
  "voltage_range 3 = 506654958079181 / 140737488355328"
  "voltage_range 4 = 1351079888211149 / 281474976710656"
  "voltage_range 5 = 6"
  "voltage_range 6 = 506654958079181 / 70368744177664"
  by (simp_all add: voltage_range_def voltage_full_values voltage_empty_values fsub_def rd_evals)

section \<open>Temperature scenario\<close>

text \<open>
  C8. A temperature monitor with warning threshold 70 and shutdown threshold 80 (and
  a poll interval that \<open>time.sleep\<close> accepts), started with no warning logged, answers
  the readings 65, 72, 74, 81 with the actions none, warning raised, none, shutdown,
  and then exits with status 1. This holds for the PCT2075 monitor and, whatever the
  ambient readings, for the MCP9601 monitor.
\<close>

theorem temperature_scenario:
  assumes "warning_temp cfg = 70" "shutdown_temp cfg = 80" "0 \<le> poll_interval cfg"
    and "warning_temp mcfg = 70" "shutdown_temp mcfg = 80" "0 \<le> poll_interval mcfg"
  shows "pct2075_loop cfg initial_state [Some 65, Some 72, Some 74, Some 81]
           = ([NoAction, WarnRaised, NoAction, Shutdown], Stop (SysExit 1))
       \<and> mcp9601_loop mcfg initial_state
           [\<lparr>temperature = Some 65, ambient_temperature = Some a1\<rparr>,
            \<lparr>temperature = Some 72, ambient_temperature = Some a2\<rparr>,
            \<lparr>temperature = Some 74, ambient_temperature = Some a3\<rparr>,
            \<lparr>temperature = Some 81, ambient_temperature = Some a4\<rparr>]
           = ([NoAction, WarnRaised, NoAction, Shutdown], Stop (SysExit 1))"
  using assms
  by (simp add: pct2075_loop_def mcp9601_loop_def pct2075_iteration_def mcp9601_iteration_def
      initial_state_def time_sleep_def)

text \<open>The scenario with the poll interval and addresses of the test fixtures.\<close>

theorem temperature_scenario_witness:
  "pct2075_loop pct2075_mock_config
     initial_state [Some 65, Some 72, Some 74, Some 81]
     = ([NoAction, WarnRaised, NoAction, Shutdown], Stop (SysExit 1))
   \<and> mcp9601_loop
       \<lparr>i2c_address = 103, poll_interval = 1, warning_temp = 70, shutdown_temp = 80,
        thermocouple_type = ''K''\<rparr>
       initial_state
       [mock_thermocouple 65,
        mock_thermocouple 72,
        mock_thermocouple 74,
        mock_thermocouple 81]
     = ([NoAction, WarnRaised, NoAction, Shutdown], Stop (SysExit 1))"
  by (rule temperature_scenario) simp_all

section \<open>Battery percentage: properties\<close>

lemma voltage_range_pos: "1 \<le> c \<Longrightarrow> c \<le> 6 \<Longrightarrow> 0 < voltage_range c"
proof -
  assume "1 \<le> c" "c \<le> 6"
  then consider "c = 1" | "c = 2" | "c = 3" | "c = 4" | "c = 5" | "c = 6" by linarith
  then show ?thesis by cases (simp_all add: voltage_range_values)
qed

lemma percent_mono:
  assumes "0 < voltage_range c" "v \<le> w"
  shows "max 0 (min 100 (fmul (fdiv (fsub v (voltage_empty c)) (voltage_range c)) 100))
       \<le> max 0 (min 100 (fmul (fdiv (fsub w (voltage_empty c)) (voltage_range c)) 100))"
proof -
  have "fsub v (voltage_empty c) \<le> fsub w (voltage_empty c)"
    unfolding fsub_def using assms(2) by (intro round_double_mono) simp
  then have "fdiv (fsub v (voltage_empty c)) (voltage_range c)
           \<le> fdiv (fsub w (voltage_empty c)) (voltage_range c)"
    unfolding fdiv_def using assms(1) by (intro round_double_mono divide_right_mono) simp_all
  then have "fmul (fdiv (fsub v (voltage_empty c)) (voltage_range c)) 100
           \<le> fmul (fdiv (fsub w (voltage_empty c)) (voltage_range c)) 100"
    unfolding fmul_def by (intro round_double_mono mult_right_mono) simp_all
  then show ?thesis by (simp add: max_def min_def)
qed

lemma percent_at_empty:
  "voltage_range c \<noteq> 0 \<Longrightarrow> calculate_battery_percent (voltage_empty c) c = Inr 0"
  by (simp add: calculate_battery_percent_def fsub_def fdiv_def fmul_def)

lemma percent_at_full:
  "voltage_range c \<noteq> 0 \<Longrightarrow> calculate_battery_percent (voltage_full c) c = Inr 100"
  by (simp add: calculate_battery_percent_def fdiv_def fmul_def rd_evals
      voltage_range_def [symmetric])

lemma percent_12_6:
  "calculate_battery_percent (round_double (126 / 10)) 3 = Inr (7036874417766397 / 70368744177664)"
  by (simp add: calculate_battery_percent_def voltage_range_values voltage_empty_values
      fsub_def fdiv_def fmul_def rd_evals)

lemma percent_10_8: "calculate_battery_percent (round_double (108 / 10)) 3 = Inr 50"
  by (simp add: calculate_battery_percent_def voltage_range_values voltage_empty_values
      fsub_def fdiv_def fmul_def rd_evals)

lemma percent_13: "calculate_battery_percent 13 3 = Inr 100"
  by (simp add: calculate_battery_percent_def voltage_range_values voltage_empty_values
      fsub_def fdiv_def fmul_def rd_evals)

lemma percent_8: "calculate_battery_percent 8 3 = Inr 0"
  by (simp add: calculate_battery_percent_def voltage_range_values voltage_empty_values
      fsub_def fdiv_def fmul_def rd_evals round_double_neg)

lemma percent_9: "calculate_battery_percent 9 3 = Inr 0"
  by (simp add: calculate_battery_percent_def voltage_range_values voltage_empty_values
      fsub_def fdiv_def fmul_def rd_evals)

text \<open>
  C5, as the code has it. For one to six cells, \<open>calculate_battery_percent\<close> returns
  a value in [0, 100], is non-decreasing in the voltage, is 0 at the float product
  \<open>3.0 * c\<close> and 100 at the float product \<open>4.2 * c\<close>. For three cells it is 0.0 at 9.0
  and at 8.0, 50.0 at 10.8, 100.0 at 13.0 and at \<open>4.2 * 3\<close>; at the literal 12.6, which is
  one unit in the last place below \<open>4.2 * 3\<close>, it is 99.99999999999996.
\<close>

theorem battery_percent_interpolation:
  assumes "1 \<le> c" "c \<le> 6"
  shows "(\<exists>p q. calculate_battery_percent v c = Inr p \<and> calculate_battery_percent w c = Inr q
            \<and> 0 \<le> p \<and> p \<le> 100 \<and> (v \<le> w \<longrightarrow> p \<le> q))
       \<and> calculate_battery_percent (fmul CELL_VOLTAGE_EMPTY (float_of_int c)) c = Inr 0
       \<and> calculate_battery_percent (fmul CELL_VOLTAGE_FULL (float_of_int c)) c = Inr 100
       \<and> calculate_battery_percent (fmul CELL_VOLTAGE_FULL (float_of_int 3)) 3 = Inr 100
       \<and> calculate_battery_percent (round_double (126 / 10)) 3
            = Inr (7036874417766397 / 70368744177664)
       \<and> calculate_battery_percent 9 3 = Inr 0
       \<and> calculate_battery_percent (round_double (108 / 10)) 3 = Inr 50
       \<and> calculate_battery_percent 13 3 = Inr 100
       \<and> calculate_battery_percent 8 3 = Inr 0"
proof -
  have r: "0 < voltage_range c" using assms by (rule voltage_range_pos)
  have r3: "voltage_range 3 \<noteq> 0" by (simp add: voltage_range_values)
  have 1: "\<exists>p q. calculate_battery_percent v c = Inr p \<and> calculate_battery_percent w c = Inr q
            \<and> 0 \<le> p \<and> p \<le> 100 \<and> (v \<le> w \<longrightarrow> p \<le> q)"
    using r percent_mono [OF r, of v w] by (simp add: calculate_battery_percent_def)
  have 2: "calculate_battery_percent (fmul CELL_VOLTAGE_EMPTY (float_of_int c)) c = Inr 0"
    using r percent_at_empty [of c] by (simp add: voltage_empty_def)
  have 3: "calculate_battery_percent (fmul CELL_VOLTAGE_FULL (float_of_int c)) c = Inr 100"
    using r percent_at_full [of c] by (simp add: voltage_full_def)
  have 4: "calculate_battery_percent (fmul CELL_VOLTAGE_FULL (float_of_int 3)) 3 = Inr 100"
    using r3 percent_at_full [of 3] by (simp add: voltage_full_def)
  show ?thesis using 1 2 3 4 percent_12_6 percent_9 percent_10_8 percent_13 percent_8
    by blast
qed

text \<open>
  C5 as stated fails at the literal 12.6: the percent computed there is not 100.0.
\<close>

theorem battery_percent_12_6_counterexample:
  "calculate_battery_percent (round_double (126 / 10)) 3 \<noteq> Inr 100"
  using percent_12_6 by simp

text \<open>
  Three cells, at the voltages 9 and 13.
\<close>

theorem battery_percent_interpolation_witness:
  "(1::int) \<le> 3 \<and> (3::int) \<le> 6
   \<and> (\<exists>p q. calculate_battery_percent 9 3 = Inr p \<and> calculate_battery_percent 13 3 = Inr q
            \<and> 0 \<le> p \<and> p \<le> 100 \<and> ((9::rat) \<le> 13 \<longrightarrow> p \<le> q))
   \<and> calculate_battery_percent (fmul CELL_VOLTAGE_EMPTY (float_of_int 3)) 3 = Inr 0
   \<and> calculate_battery_percent (fmul CELL_VOLTAGE_FULL (float_of_int 3)) 3 = Inr 100"
proof -
  have h1: "(1::int) \<le> 3" and h2: "(3::int) \<le> 6" by simp_all
  show ?thesis using h1 h2 battery_percent_interpolation [OF h1 h2, of 9 13] by blast
qed

subsection \<open>Steps of the battery monitor\<close>

lemma ina219_read_charging_flag:
  "ina219_read cfg sensor = Some (p, ch) \<Longrightarrow> current sensor = Some c \<Longrightarrow> ch = (0 < c)"
  by (auto simp: ina219_read_def Let_def split: Option.bind_splits sum.splits)

lemma ina219_read_Some:
  assumes "bus_voltage sensor = Some b" "shunt_voltage sensor = Some sh" "current sensor = Some c"
    and "voltage_range (cell_count cfg) \<noteq> 0"
  shows "\<exists>p. ina219_read cfg sensor = Some (p, 0 < c)"
  using assms by (simp add: ina219_read_def calculate_battery_percent_def Let_def)

lemma on_read_failure_cases:
  "on_read_failure s = (ReadFailed, Continue (s\<lparr>consecutive_failures := consecutive_failures s + 1\<rparr>))
   \<or> on_read_failure s = (CriticalFailure, Continue (s\<lparr>consecutive_failures := 0\<rparr>))"
  by (simp add: on_read_failure_def Let_def)

lemma ina219_charging_step:
  assumes "current sensor = Some c" "0 < c"
  shows "fst (ina219_iteration cfg s sensor) \<noteq> Shutdown
       \<and> (\<exists>s'. snd (ina219_iteration cfg s sensor) = Continue s')"
proof (cases "ina219_read cfg sensor")
  case None
  then show ?thesis using on_read_failure_cases [of s]
    by (auto simp: ina219_iteration_def)
next
  case (Some pc)
  obtain p ch where pc: "pc = (p, ch)" by (cases pc)
  with Some assms have "ch" using ina219_read_charging_flag by blast
  then show ?thesis using Some pc by (simp add: ina219_iteration_def Let_def)
qed

text \<open>
  C1. Charging is \<open>current_ma > 0\<close> (\<open>ina219_read\<close>). Over any sequence of polls
  in each of which the current read is positive, the battery monitor never calls
  \<open>trigger_shutdown\<close> and never reaches its \<open>sys.exit\<close>, whatever the voltages,
  thresholds and state.
\<close>

theorem charging_never_shutdown:
  assumes "\<forall>r \<in> set rs. \<exists>c. current r = Some c \<and> 0 < c"
  shows "Shutdown \<notin> set (fst (ina219_loop cfg s rs))
       \<and> (\<forall>code. snd (ina219_loop cfg s rs) \<noteq> Stop (SysExit code))"
  using assms
proof (induction rs arbitrary: s)
  case Nil
  then show ?case by (simp add: ina219_loop_def)
next
  case (Cons r rs)
  then obtain c where c: "current r = Some c" "0 < c" by auto
  obtain a s' where step: "ina219_iteration cfg s r = (a, Continue s')" "a \<noteq> Shutdown"
    using ina219_charging_step [OF c, of cfg s]
    by (cases "ina219_iteration cfg s r") auto
  have IH: "Shutdown \<notin> set (fst (ina219_loop cfg s' rs))
       \<and> (\<forall>code. snd (ina219_loop cfg s' rs) \<noteq> Stop (SysExit code))"
    using Cons by simp
  show ?case using step IH
    by (auto simp: ina219_loop_def split: prod.splits option.splits)
qed

text \<open>
  Two charging polls at 0 percent (9 V and 8 V on three cells).
\<close>

theorem charging_never_shutdown_witness:
  "current (mock_battery 9 500) = Some 500 \<and> (0::rat) < 500
   \<and> current (mock_battery 8 1) = Some 1 \<and> (0::rat) < 1
   \<and> Shutdown \<notin> set (fst (ina219_loop ina219_mock_config initial_state
                               [mock_battery 9 500, mock_battery 8 1]))
   \<and> snd (ina219_loop ina219_mock_config initial_state
            [mock_battery 9 500, mock_battery 8 1]) \<noteq> Stop (SysExit 1)"
proof -
  have h: "\<forall>r \<in> set [mock_battery 9 500, mock_battery 8 1].
             \<exists>c. current r = Some c \<and> 0 < c"
    by simp
  show ?thesis
    using charging_never_shutdown [OF h, of ina219_mock_config initial_state] by simp
qed

text \<open>
  C10. A successful poll of the battery monitor with a positive current logs no
  warning at any percent: it does nothing when no warning is logged, and logs the
  recovery and resets \<open>warning_logged\<close> when one is.
\<close>

theorem charging_suppresses_warning:
  assumes "bus_voltage sensor = Some b" "shunt_voltage sensor = Some sh"
    and "current sensor = Some c" "0 < c"
    and "1 \<le> cell_count cfg" "cell_count cfg \<le> 6"
  shows "ina219_iteration cfg s sensor
       = (if warning_logged s then WarnCleared else NoAction,
          Continue \<lparr>consecutive_failures = 0, warning_logged = False\<rparr>)"
proof -
  have "voltage_range (cell_count cfg) \<noteq> 0"
    using voltage_range_pos [OF assms(5,6)] by simp
  then obtain p where "ina219_read cfg sensor = Some (p, True)"
    using ina219_read_Some [OF assms(1,2,3)] assms(4) by auto
  then show ?thesis by (cases s) (simp add: ina219_iteration_def Let_def)
qed

text \<open>A charging poll at 0 percent with the warning logged clears it.\<close>

theorem charging_suppresses_warning_witness:
  "(0::rat) < 500 \<and> (1::int) \<le> 3 \<and> (3::int) \<le> 6
   \<and> ina219_iteration ina219_mock_config warned_state (mock_battery 9 500)
       = (WarnCleared, Continue \<lparr>consecutive_failures = 0, warning_logged = False\<rparr>)"
  using charging_suppresses_warning
    [of "mock_battery 9 500" 9 0 500 ina219_mock_config warned_state]
  by simp

text \<open>
  C9. A pass of the thermocouple monitor gives the same action and the same next
  state for any two ambient readings, the hot-junction read being the same.
\<close>

theorem ambient_never_decides:
  "mcp9601_iteration cfg s \<lparr>temperature = hot, ambient_temperature = Some a1\<rparr>
   = mcp9601_iteration cfg s \<lparr>temperature = hot, ambient_temperature = Some a2\<rparr>"
  by (cases hot) (simp_all add: mcp9601_iteration_def)

section \<open>Read failures, scenarios and hysteresis\<close>

lemma length_five:
  "length rs = 5 \<Longrightarrow> \<exists>r1 r2 r3 r4 r5. rs = [r1, r2, r3, r4, r5]"
  by (auto simp: eval_nat_numeral length_Suc_conv)

lemma failure_run:
  assumes fails: "\<And>u r. r \<in> set rs \<Longrightarrow> iteration u r = on_read_failure u"
    and len: "length rs = 5" and zero: "consecutive_failures s = 0" and poll: "0 \<le> poll"
  shows "monitor_loop poll iteration s rs
       = ([ReadFailed, ReadFailed, ReadFailed, ReadFailed, CriticalFailure], Continue s)"
proof -
  obtain r1 r2 r3 r4 r5 where rs: "rs = [r1, r2, r3, r4, r5]"
    using length_five [OF len] by blast
  have f: "iteration u r1 = on_read_failure u" "iteration u r2 = on_read_failure u"
    "iteration u r3 = on_read_failure u" "iteration u r4 = on_read_failure u"
    "iteration u r5 = on_read_failure u" for u
    using fails by (simp_all add: rs)
  show ?thesis using zero poll
    by (cases s) (simp add: rs f on_read_failure_def MAX_CONSECUTIVE_FAILURES_def time_sleep_def)
qed

lemma mcp9601_fails:
  "temperature r = None \<or> ambient_temperature r = None \<Longrightarrow>
   mcp9601_iteration cfg u r = on_read_failure u"
  by (auto simp: mcp9601_iteration_def split: Option.bind_splits)

lemma ina219_read_fails:
  "bus_voltage r = None \<or> shunt_voltage r = None \<or> current r = None \<Longrightarrow>
   ina219_read cfg r = None"
  by (auto simp: ina219_read_def Let_def split: Option.bind_splits)

lemma ina219_fails:
  "bus_voltage r = None \<or> shunt_voltage r = None \<or> current r = None \<Longrightarrow>
   ina219_iteration cfg u r = on_read_failure u"
  by (simp add: ina219_iteration_def ina219_read_fails)

lemma on_read_failure_keeps_warning:
  "\<exists>a u'. on_read_failure u = (a, Continue u') \<and> a \<noteq> Shutdown
      \<and> warning_logged u' = warning_logged u"
  by (simp add: on_read_failure_def Let_def)

text \<open>
  C4. From a state with \<open>consecutive_failures = 0\<close> (the initial state, and the state
  after every pass whose read succeeded, \<open>pass_after_read_resets_failures\<close> below),
  five failed reads in a row give four plain read errors and then one critical
  report, never a shutdown, and leave the state as it was, the counter back at 0. In
  any state, a pass whose read fails continues the loop with \<open>warning_logged\<close>
  unchanged. A read fails when the sensor attribute (any one of them, for the
  thermocouple and battery monitors) raises.
\<close>

theorem five_read_failures:
  assumes "consecutive_failures s = 0"
    and "0 \<le> poll_interval pcfg" "0 \<le> poll_interval mcfg" "0 \<le> poll_interval bcfg"
  shows "pct2075_loop pcfg s (replicate 5 None)
           = ([ReadFailed, ReadFailed, ReadFailed, ReadFailed, CriticalFailure], Continue s)
       \<and> (length ms = 5 \<and> (\<forall>r \<in> set ms. temperature r = None \<or> ambient_temperature r = None)
            \<longrightarrow> mcp9601_loop mcfg s ms
              = ([ReadFailed, ReadFailed, ReadFailed, ReadFailed, CriticalFailure], Continue s))
       \<and> (length bs = 5
            \<and> (\<forall>r \<in> set bs. bus_voltage r = None \<or> shunt_voltage r = None \<or> current r = None)
            \<longrightarrow> ina219_loop bcfg s bs
              = ([ReadFailed, ReadFailed, ReadFailed, ReadFailed, CriticalFailure], Continue s))
       \<and> (\<exists>a u'. pct2075_iteration pcfg u None = (a, Continue u') \<and> a \<noteq> Shutdown
            \<and> warning_logged u' = warning_logged u)
       \<and> (temperature m = None \<or> ambient_temperature m = None
            \<longrightarrow> (\<exists>a u'. mcp9601_iteration mcfg u m = (a, Continue u') \<and> a \<noteq> Shutdown
                  \<and> warning_logged u' = warning_logged u))
       \<and> (bus_voltage b = None \<or> shunt_voltage b = None \<or> current b = None
            \<longrightarrow> (\<exists>a u'. ina219_iteration bcfg u b = (a, Continue u') \<and> a \<noteq> Shutdown
                  \<and> warning_logged u' = warning_logged u))"
proof -
  have 1: "pct2075_loop pcfg s (replicate 5 None)
           = ([ReadFailed, ReadFailed, ReadFailed, ReadFailed, CriticalFailure], Continue s)"
    unfolding pct2075_loop_def
    by (rule failure_run [OF _ _ assms(1,2)]) (simp_all add: pct2075_iteration_def)
  have 2: "mcp9601_loop mcfg s ms
              = ([ReadFailed, ReadFailed, ReadFailed, ReadFailed, CriticalFailure], Continue s)"
    if "length ms = 5" "\<forall>r \<in> set ms. temperature r = None \<or> ambient_temperature r = None"
    unfolding mcp9601_loop_def
    using that by (intro failure_run [OF _ _ assms(1,3)] mcp9601_fails) auto
  have 3: "ina219_loop bcfg s bs
              = ([ReadFailed, ReadFailed, ReadFailed, ReadFailed, CriticalFailure], Continue s)"
    if "length bs = 5"
      "\<forall>r \<in> set bs. bus_voltage r = None \<or> shunt_voltage r = None \<or> current r = None"
    unfolding ina219_loop_def
    using that by (intro failure_run [OF _ _ assms(1,4)] ina219_fails) auto
  have 4: "\<exists>a u'. pct2075_iteration pcfg u None = (a, Continue u') \<and> a \<noteq> Shutdown
            \<and> warning_logged u' = warning_logged u"
    using on_read_failure_keeps_warning [of u] by (simp add: pct2075_iteration_def)
  have 5: "\<exists>a u'. mcp9601_iteration mcfg u m = (a, Continue u') \<and> a \<noteq> Shutdown
                  \<and> warning_logged u' = warning_logged u"
    if "temperature m = None \<or> ambient_temperature m = None"
    using on_read_failure_keeps_warning [of u] by (simp add: mcp9601_fails [OF that])
  have 6: "\<exists>a u'. ina219_iteration bcfg u b = (a, Continue u') \<and> a \<noteq> Shutdown
                  \<and> warning_logged u' = warning_logged u"
    if "bus_voltage b = None \<or> shunt_voltage b = None \<or> current b = None"
    using on_read_failure_keeps_warning [of u] by (simp add: ina219_fails [OF that])
  show ?thesis using 1 2 3 4 5 6 by blast
qed

text \<open>
  Five failed reads of the thermocouple and of the battery monitor with a warning logged.
\<close>

theorem five_read_failures_witness:
  "consecutive_failures warned_state = 0
   \<and> 0 \<le> poll_interval pct2075_mock_config
   \<and> 0 \<le> poll_interval mcp9601_mock_config
   \<and> 0 \<le> poll_interval ina219_mock_config
   \<and> pct2075_loop pct2075_mock_config warned_state (replicate 5 None)
       = ([ReadFailed, ReadFailed, ReadFailed, ReadFailed, CriticalFailure],
          Continue warned_state)
   \<and> ambient_temperature \<lparr>temperature = Some 25, ambient_temperature = None\<rparr> = None
   \<and> mcp9601_loop mcp9601_mock_config warned_state
         (replicate 5 \<lparr>temperature = Some 25, ambient_temperature = None\<rparr>)
       = ([ReadFailed, ReadFailed, ReadFailed, ReadFailed, CriticalFailure],
          Continue warned_state)
   \<and> shunt_voltage \<lparr>bus_voltage = Some 9, shunt_voltage = None, current = Some 500\<rparr> = None
   \<and> ina219_loop ina219_mock_config warned_state
         (replicate 5 \<lparr>bus_voltage = Some 9, shunt_voltage = None, current = Some 500\<rparr>)
       = ([ReadFailed, ReadFailed, ReadFailed, ReadFailed, CriticalFailure],
          Continue warned_state)"
proof -
  let ?m = "\<lparr>temperature = Some 25, ambient_temperature = None\<rparr>"
  let ?b = "\<lparr>bus_voltage = Some 9, shunt_voltage = None, current = Some 500\<rparr>"
  let ?acts = "[ReadFailed, ReadFailed, ReadFailed, ReadFailed, CriticalFailure]"
  have h: "consecutive_failures warned_state = 0" by simp
  have p: "0 \<le> poll_interval pct2075_mock_config" "0 \<le> poll_interval mcp9601_mock_config"
    "0 \<le> poll_interval ina219_mock_config"
    by simp_all
  have m: "length (replicate 5 ?m) = 5
    \<and> (\<forall>r \<in> set (replicate 5 ?m). temperature r = None \<or> ambient_temperature r = None)"
    by simp
  have b: "length (replicate 5 ?b) = 5
    \<and> (\<forall>r \<in> set (replicate 5 ?b).
          bus_voltage r = None \<or> shunt_voltage r = None \<or> current r = None)"
    by simp
  note t = five_read_failures [OF h p, where ms = "replicate 5 ?m" and bs = "replicate 5 ?b"]
  have 1: "pct2075_loop pct2075_mock_config warned_state (replicate 5 None)
      = (?acts, Continue warned_state)"
    using t by blast
  have 2: "mcp9601_loop mcp9601_mock_config warned_state (replicate 5 ?m)
      = (?acts, Continue warned_state)"
    using t m by blast
  have 3: "ina219_loop ina219_mock_config warned_state (replicate 5 ?b)
      = (?acts, Continue warned_state)"
    using t b by blast
  show ?thesis using 1 2 3 by simp
qed

lemma pass_after_read_resets_failures:
  "pct2075_iteration pcfg s (Some t) = (a, Continue s') \<Longrightarrow> consecutive_failures s' = 0"
  "mcp9601_iteration mcfg s \<lparr>temperature = Some t, ambient_temperature = Some amb\<rparr>
     = (a, Continue s') \<Longrightarrow> consecutive_failures s' = 0"
  "ina219_read bcfg b = Some (p, ch) \<Longrightarrow> ina219_iteration bcfg s b = (a, Continue s')
     \<Longrightarrow> consecutive_failures s' = 0"
  by (auto simp: pct2075_iteration_def mcp9601_iteration_def ina219_iteration_def Let_def
      split: if_splits)

subsection \<open>Concrete battery polls\<close>

lemma ina219_read_10_8:
  "cell_count cfg = 3 \<Longrightarrow>
   ina219_read cfg \<lparr>bus_voltage = Some (round_double (108 / 10)), shunt_voltage = Some 0,
                    current = Some c\<rparr> = Some (50, 0 < c)"
  by (simp add: ina219_read_def fadd_def calculate_battery_percent_def voltage_range_values
      voltage_empty_values fsub_def fdiv_def fmul_def rd_evals)

lemma ina219_read_9_504:
  "cell_count cfg = 3 \<Longrightarrow>
   ina219_read cfg \<lparr>bus_voltage = Some (round_double (9504 / 1000)), shunt_voltage = Some 0,
                    current = Some c\<rparr> = Some (3940649673949179 / 281474976710656, 0 < c)"
  by (simp add: ina219_read_def fadd_def calculate_battery_percent_def voltage_range_values
      voltage_empty_values fsub_def fdiv_def fmul_def rd_evals)

lemma ina219_read_9_144:
  "cell_count cfg = 3 \<Longrightarrow>
   ina219_read cfg \<lparr>bus_voltage = Some (round_double (9144 / 1000)), shunt_voltage = Some 0,
                    current = Some c\<rparr> = Some (2251799813685249 / 562949953421312, 0 < c)"
  by (simp add: ina219_read_def fadd_def calculate_battery_percent_def voltage_range_values
      voltage_empty_values fsub_def fdiv_def fmul_def rd_evals)

lemma scenario_reads:
  fixes cfg :: ina219_config
  defines "cfg \<equiv> ina219_mock_config"
  shows "ina219_read cfg (mock_battery (round_double (108 / 10)) (- 500)) = Some (50, False)"
    and "ina219_read cfg (mock_battery (round_double (9504 / 1000)) (- 500))
      = Some (3940649673949179 / 281474976710656, False)"
    and "ina219_read cfg (mock_battery (round_double (9144 / 1000)) (- 500))
      = Some (2251799813685249 / 562949953421312, False)"
    and "ina219_read cfg (mock_battery (round_double (108 / 10)) 500) = Some (50, True)"
    and "ina219_read cfg (mock_battery (round_double (9504 / 1000)) 500)
      = Some (3940649673949179 / 281474976710656, True)"
    and "ina219_read cfg (mock_battery (round_double (9144 / 1000)) 500)
      = Some (2251799813685249 / 562949953421312, True)"
proof -
  have c: "cell_count cfg = 3" by (simp add: cfg_def)
  show "ina219_read cfg (mock_battery (round_double (108 / 10)) (- 500)) = Some (50, False)"
    using ina219_read_10_8 [OF c, of "- 500"] by simp
  show "ina219_read cfg (mock_battery (round_double (9504 / 1000)) (- 500))
      = Some (3940649673949179 / 281474976710656, False)"
    using ina219_read_9_504 [OF c, of "- 500"] by simp
  show "ina219_read cfg (mock_battery (round_double (9144 / 1000)) (- 500))
      = Some (2251799813685249 / 562949953421312, False)"
    using ina219_read_9_144 [OF c, of "- 500"] by simp
  show "ina219_read cfg (mock_battery (round_double (108 / 10)) 500) = Some (50, True)"
    using ina219_read_10_8 [OF c, of 500] by simp
  show "ina219_read cfg (mock_battery (round_double (9504 / 1000)) 500)
      = Some (3940649673949179 / 281474976710656, True)"
    using ina219_read_9_504 [OF c, of 500] by simp
  show "ina219_read cfg (mock_battery (round_double (9144 / 1000)) 500)
      = Some (2251799813685249 / 562949953421312, True)"
    using ina219_read_9_144 [OF c, of 500] by simp
qed

lemma charging_run:
  assumes "ina219_read cfg c1 = Some (p1, True)" "ina219_read cfg c2 = Some (p2, True)"
    "ina219_read cfg c3 = Some (p3, True)" and "0 \<le> poll_interval cfg"
  shows "ina219_loop cfg initial_state [c1, c2, c3]
           = ([NoAction, NoAction, NoAction], Continue initial_state)"
  using assms
  by (simp add: ina219_loop_def ina219_iteration_def initial_state_def time_sleep_def)

text \<open>
  C2, as the code has it. Battery monitor with warning at 15 percent, shutdown at
  5 percent, three cells and a poll interval that \<open>time.sleep\<close> accepts, started with
  no warning logged; three polls whose
  computed percents are above 15, in (5, 15] and at most 5. Discharging, the actions
  are none, warning raised, shutdown. Charging, the same three polls give no action
  at all: the warning test has the same \<open>not is_charging\<close> guard as the shutdown test.
\<close>

theorem battery_scenario:
  assumes "warning_percent cfg = 15" "shutdown_percent cfg = 5" "cell_count cfg = 3"
    and "0 \<le> poll_interval cfg"
    and "ina219_read cfg d1 = Some (p1, False)" "ina219_read cfg d2 = Some (p2, False)"
        "ina219_read cfg d3 = Some (p3, False)"
    and "ina219_read cfg c1 = Some (p1, True)" "ina219_read cfg c2 = Some (p2, True)"
        "ina219_read cfg c3 = Some (p3, True)"
    and "15 < p1" "5 < p2" "p2 \<le> 15" "p3 \<le> 5"
  shows "ina219_loop cfg initial_state [d1, d2, d3]
           = ([NoAction, WarnRaised, Shutdown], Stop (SysExit 1))
       \<and> ina219_loop cfg initial_state [c1, c2, c3]
           = ([NoAction, NoAction, NoAction], Continue initial_state)"
  using assms
  by (simp add: ina219_loop_def ina219_iteration_def initial_state_def time_sleep_def)

text \<open>
  C2 as stated fails on the charging run: at 10.8 V, 9.504 V and 9.144 V (50, 14 and
  4 percent) with a current of +500 mA the actions are not none, warning, warning.
\<close>

theorem battery_scenario_counterexample:
  "fst (ina219_loop ina219_mock_config initial_state
         [mock_battery (round_double (108 / 10)) 500,
          mock_battery (round_double (9504 / 1000)) 500,
          mock_battery (round_double (9144 / 1000)) 500])
   \<noteq> [NoAction, WarnRaised, WarnRaised]"
proof -
  have p: "(0::rat) \<le> poll_interval ina219_mock_config" by simp
  show ?thesis unfolding charging_run [OF scenario_reads(4,5,6) p] by simp
qed

text \<open>
  The scenario at 10.8 V, 9.504 V and 9.144 V, with -500 mA and with +500 mA.
\<close>

theorem battery_scenario_witness:
  "ina219_loop ina219_mock_config initial_state
     [mock_battery (round_double (108 / 10)) (- 500),
      mock_battery (round_double (9504 / 1000)) (- 500),
      mock_battery (round_double (9144 / 1000)) (- 500)]
     = ([NoAction, WarnRaised, Shutdown], Stop (SysExit 1))
   \<and> ina219_loop ina219_mock_config initial_state
     [mock_battery (round_double (108 / 10)) 500,
      mock_battery (round_double (9504 / 1000)) 500,
      mock_battery (round_double (9144 / 1000)) 500]
     = ([NoAction, NoAction, NoAction], Continue initial_state)"
proof -
  let ?cfg = "ina219_mock_config"
  have c: "cell_count ?cfg = 3" by simp
  have w: "warning_percent ?cfg = 15" by simp
  have sh: "shutdown_percent ?cfg = 5" by simp
  have po: "0 \<le> poll_interval ?cfg" by simp
  have b: "(15::rat) < 50" "(5::rat) < 3940649673949179 / 281474976710656"
    "(3940649673949179 / 281474976710656 :: rat) \<le> 15"
    "(2251799813685249 / 562949953421312 :: rat) \<le> 5" by simp_all
  show ?thesis by (rule battery_scenario [OF w sh c po scenario_reads b])
qed

subsection \<open>Hysteresis\<close>





section \<open>Start-up: threshold order\<close>














section \<open>Worker pool: sizing and shutdown\<close>











lemma pool_ok_reachable:
  "pool_ok (WorkerPool m)"
  "pool_ok (fst (shutdown self os))"
  by (simp_all add: pool_ok_def WorkerPool_def shutdown_def Let_def)


end
